theory Spec2Isabelle
  imports Main "HOL-Library.Word"
begin

section \<open>Values of the Go program\<close>

text \<open>
  \<^verbatim>\<open>bson.M\<close> is \<^verbatim>\<open>map[string]any\<close>: an unordered map from field names to values.
  The values the repository itself builds are strings (the id) and nested maps (the
  \<^verbatim>\<open>$set\<close> document); every other Go value a caller may store is a \<open>BAny\<close>.
\<close>

datatype 'v bson = BStr string | BAny 'v | BM "string \<Rightarrow> 'v bson option"

type_synonym 'v bsonM = "string \<Rightarrow> 'v bson option"

text \<open>
  A Go slice is either \<^verbatim>\<open>nil\<close> or a (possibly empty) sequence; \<^verbatim>\<open>var results []T\<close>
  declares the nil slice, and \<^verbatim>\<open>append\<close> on it allocates.
\<close>

datatype 'a slice = NilSlice | Slice "'a list"

fun append_slice :: "'a slice \<Rightarrow> 'a \<Rightarrow> 'a slice" where
  "append_slice NilSlice x = Slice [x]"
| "append_slice (Slice xs) x = Slice (xs @ [x])"

fun elems :: "'a slice \<Rightarrow> 'a list" where
  "elems NilSlice = []"
| "elems (Slice xs) = xs"

definition len :: "'a slice \<Rightarrow> nat" where
  "len sl = length (elems sl)"

section \<open>The driver, as the repository sees it\<close>

text \<open>
  The types the driver hands back. \<^verbatim>\<open>SingleResult\<close> carries the error of the operation
  that made it (among them \<^verbatim>\<open>ErrNoDocuments\<close>) and the raw document; a \<^verbatim>\<open>Cursor\<close> carries
  the documents \<^verbatim>\<open>Next\<close> will still yield, the current one, and the error \<^verbatim>\<open>Err\<close> reports
  once \<^verbatim>\<open>Next\<close> has returned false. \<^verbatim>\<open>Find\<close> is called without options, so the cursor is
  not tailable and yields finitely many documents; the batches it fetches on the way are
  taken as already in it, and a fetch that fails shows as a shorter \<open>cur_batch\<close> with
  \<open>cur_err\<close> set.
\<close>

record 'v InsertOneResult =
  InsertedID :: "'v bson"
  ins_Acknowledged :: bool

record UpdateResult =
  MatchedCount :: "64 word"
  ModifiedCount :: "64 word"
  UpsertedCount :: "64 word"
  upd_Acknowledged :: bool

record DeleteResult =
  DeletedCount :: "64 word"
  del_Acknowledged :: bool

record ('e, 'v) SingleResult =
  sr_err :: "'e option"
  sr_rdr :: "'v bsonM"

record ('e, 'v) Cursor =
  cur_batch :: "'v bsonM list"
  Current :: "'v bsonM"
  cur_err :: "'e option"

text \<open>
  The calls of the driver the repository makes, taken as parameters: \<open>'h\<close> is the
  collection handle, \<open>'c\<close> the context, \<open>'e\<close> the error values, \<open>'t\<close> the entity type
  \<^verbatim>\<open>T\<close>, \<open>'s\<close> the state of the database and of the session behind the handle.
  \<open>zero\<close> is the zero value of \<^verbatim>\<open>T\<close> and \<open>unmarshal\<close> decodes a raw document into a
  target of type \<^verbatim>\<open>T\<close> passed by pointer: it returns the error and the target as it
  leaves it.
\<close>

record ('h, 'c, 'e, 'v, 't, 's) driver =
  coll_InsertOne :: "'h \<Rightarrow> 'c \<Rightarrow> 't \<Rightarrow> 's \<Rightarrow> ('e + 'v InsertOneResult) \<times> 's"
  coll_FindOne :: "'h \<Rightarrow> 'c \<Rightarrow> 'v bsonM \<Rightarrow> 's \<Rightarrow> ('e, 'v) SingleResult \<times> 's"
  coll_Find :: "'h \<Rightarrow> 'c \<Rightarrow> 'v bsonM \<Rightarrow> 's \<Rightarrow> ('e + ('e, 'v) Cursor) \<times> 's"
  coll_UpdateOne :: "'h \<Rightarrow> 'c \<Rightarrow> 'v bsonM \<Rightarrow> 'v bsonM \<Rightarrow> 's \<Rightarrow> ('e + UpdateResult) \<times> 's"
  coll_DeleteOne :: "'h \<Rightarrow> 'c \<Rightarrow> 'v bsonM \<Rightarrow> 's \<Rightarrow> ('e + DeleteResult) \<times> 's"
  cur_Close :: "('e, 'v) Cursor \<Rightarrow> 'c \<Rightarrow> 's \<Rightarrow> 'e option \<times> 's"
  zero :: "'t"
  unmarshal :: "'v bsonM \<Rightarrow> 't \<Rightarrow> 'e option \<times> 't"

text \<open>\<^verbatim>\<open>SingleResult.Decode\<close>: the stored error comes back before anything is decoded.\<close>

definition sr_Decode ::
  "('h, 'c, 'e, 'v, 't, 's) driver \<Rightarrow> ('e, 'v) SingleResult \<Rightarrow> 't \<Rightarrow> 'e option \<times> 't" where
  "sr_Decode drv sr target =
     (case sr_err sr of
        Some err \<Rightarrow> (Some err, target)
      | None \<Rightarrow> unmarshal drv (sr_rdr sr) target)"

text \<open>\<^verbatim>\<open>Cursor.Next\<close>, \<^verbatim>\<open>Cursor.Decode\<close> and \<^verbatim>\<open>Cursor.Err\<close>.\<close>

definition Next :: "('e, 'v) Cursor \<Rightarrow> bool \<times> ('e, 'v) Cursor" where
  "Next cursor =
     (case cur_batch cursor of
        [] \<Rightarrow> (False, cursor)
      | d # ds \<Rightarrow> (True, cursor\<lparr>cur_batch := ds, Current := d\<rparr>))"

definition cur_Decode ::
  "('h, 'c, 'e, 'v, 't, 's) driver \<Rightarrow> ('e, 'v) Cursor \<Rightarrow> 't \<Rightarrow> 'e option \<times> 't" where
  "cur_Decode drv cursor target = unmarshal drv (Current cursor) target"

definition Err :: "('e, 'v) Cursor \<Rightarrow> 'e option" where
  "Err cursor = cur_err cursor"

section \<open>The repository\<close>

record 'h MongoBaseRepository =
  collection :: 'h

text \<open>
  The methods have a pointer receiver: the repository object and the state behind the
  driver are what a call can change.
\<close>

record ('h, 's) world =
  this :: "'h MongoBaseRepository"
  db :: 's

text \<open>\<^verbatim>\<open>bson.M{"_id": id}\<close> and \<^verbatim>\<open>bson.M{"$set": update}\<close>.\<close>

definition id_filter :: "string \<Rightarrow> 'v bsonM" where
  "id_filter ident = Map.empty(''_id'' \<mapsto> BStr ident)"

definition set_document :: "'v bsonM \<Rightarrow> 'v bsonM" where
  "set_document update = Map.empty(''$set'' \<mapsto> BM update)"

definition InsertOne ::
  "('h, 'c, 'e, 'v, 't, 's) driver \<Rightarrow> 'c \<Rightarrow> 't \<Rightarrow> ('h, 's) world \<Rightarrow> 'e option \<times> ('h, 's) world" where
  "InsertOne drv ctx document w =
     (case coll_InsertOne drv (collection (this w)) ctx document (db w) of
        (Inl err, s1) \<Rightarrow> (Some err, w\<lparr>db := s1\<rparr>)
      | (Inr _, s1) \<Rightarrow> (None, w\<lparr>db := s1\<rparr>))"

definition FindOneById ::
  "('h, 'c, 'e, 'v, 't, 's) driver \<Rightarrow> 'c \<Rightarrow> string \<Rightarrow> ('h, 's) world
     \<Rightarrow> ('t \<times> 'e option) \<times> ('h, 's) world" where
  "FindOneById drv ctx ident w =
     (let fltr = id_filter ident;
          result = zero drv;
          (sr, s1) = coll_FindOne drv (collection (this w)) ctx fltr (db w);
          (err, result) = sr_Decode drv sr result
      in case err of
           Some e \<Rightarrow> ((result, Some e), w\<lparr>db := s1\<rparr>)
         | None \<Rightarrow> ((result, None), w\<lparr>db := s1\<rparr>))"

text \<open>
  The loop of \<^verbatim>\<open>FindAll\<close>: \<open>Inl\<close> is the early \<^verbatim>\<open>return nil, err\<close> on a document that
  does not decode, \<open>Inr\<close> the accumulated slice when \<^verbatim>\<open>Next\<close> returns false.
\<close>

function FindAll_loop ::
  "('h, 'c, 'e, 'v, 't, 's) driver \<Rightarrow> ('e, 'v) Cursor \<Rightarrow> 't slice
     \<Rightarrow> ('e + 't slice) \<times> ('e, 'v) Cursor" where
  "FindAll_loop drv cursor results =
     (case Next cursor of
        (False, cursor') \<Rightarrow> (Inr results, cursor')
      | (True, cursor') \<Rightarrow>
          (case cur_Decode drv cursor' (zero drv) of
             (Some err, item) \<Rightarrow> (Inl err, cursor')
           | (None, item) \<Rightarrow> FindAll_loop drv cursor' (append_slice results item)))"
  by pat_completeness auto
termination
  by (relation "measure (\<lambda>(drv, cursor, results). length (cur_batch cursor))")
     (auto simp: Next_def split: list.splits)

declare FindAll_loop.simps [simp del]

definition FindAll ::
  "('h, 'c, 'e, 'v, 't, 's) driver \<Rightarrow> 'c \<Rightarrow> 'v bsonM \<Rightarrow> ('h, 's) world
     \<Rightarrow> ('t slice \<times> 'e option) \<times> ('h, 's) world" where
  "FindAll drv ctx fltr w =
     (case coll_Find drv (collection (this w)) ctx fltr (db w) of
        (Inl err, s1) \<Rightarrow> ((NilSlice, Some err), w\<lparr>db := s1\<rparr>)
      | (Inr cursor, s1) \<Rightarrow>
          (let (r, cursor') = FindAll_loop drv cursor NilSlice;
               ret = (case r of
                        Inl err \<Rightarrow> (NilSlice, Some err)
                      | Inr results \<Rightarrow>
                          (case Err cursor' of
                             Some err \<Rightarrow> (NilSlice, Some err)
                           | None \<Rightarrow> (results, None)));
               (_, s2) = cur_Close drv cursor' ctx s1
           in (ret, w\<lparr>db := s2\<rparr>)))"

definition UpdateOneById ::
  "('h, 'c, 'e, 'v, 't, 's) driver \<Rightarrow> 'c \<Rightarrow> string \<Rightarrow> 'v bsonM \<Rightarrow> ('h, 's) world
     \<Rightarrow> 'e option \<times> ('h, 's) world" where
  "UpdateOneById drv ctx ident update w =
     (let fltr = id_filter ident
      in case coll_UpdateOne drv (collection (this w)) ctx fltr (set_document update) (db w) of
           (Inl err, s1) \<Rightarrow> (Some err, w\<lparr>db := s1\<rparr>)
         | (Inr _, s1) \<Rightarrow> (None, w\<lparr>db := s1\<rparr>))"

definition DeleteOneById ::
  "('h, 'c, 'e, 'v, 't, 's) driver \<Rightarrow> 'c \<Rightarrow> string \<Rightarrow> ('h, 's) world
     \<Rightarrow> 'e option \<times> ('h, 's) world" where
  "DeleteOneById drv ctx ident w =
     (let fltr = id_filter ident
      in case coll_DeleteOne drv (collection (this w)) ctx fltr (db w) of
           (Inl err, s1) \<Rightarrow> (Some err, w\<lparr>db := s1\<rparr>)
         | (Inr _, s1) \<Rightarrow> (None, w\<lparr>db := s1\<rparr>))"

section \<open>The connection manager\<close>

text \<open>
  The calls of the driver's client, taken as parameters: \<open>'cl\<close> is \<^verbatim>\<open>*mongo.Client\<close>,
  \<open>'d\<close> a database handle. \<open>mongo_Connect\<close> stands for
  \<^verbatim>\<open>mongo.Connect(options.Client().ApplyURI(connectionStr))\<close> and \<open>Background\<close> for
  \<^verbatim>\<open>context.Background()\<close>.
\<close>

record ('cl, 'd, 'h, 'c, 'e, 's) client_api =
  mongo_Connect :: "string \<Rightarrow> 's \<Rightarrow> ('e + 'cl) \<times> 's"
  Ping :: "'cl \<Rightarrow> 'c \<Rightarrow> 's \<Rightarrow> 'e option \<times> 's"
  cl_Disconnect :: "'cl \<Rightarrow> 'c \<Rightarrow> 's \<Rightarrow> 'e option \<times> 's"
  Database :: "'cl \<Rightarrow> string \<Rightarrow> 'd"
  Collection :: "'d \<Rightarrow> string \<Rightarrow> 'h"
  Background :: "'c"

record 'cl MongoClient =
  Client :: 'cl

text \<open>\<^verbatim>\<open>Connect(ctx, connectionStr)\<close> of \<^verbatim>\<open>mongo_client.go\<close>.\<close>

definition Connect ::
  "('cl, 'd, 'h, 'c, 'e, 's) client_api \<Rightarrow> 'c \<Rightarrow> string \<Rightarrow> 's
     \<Rightarrow> ('cl MongoClient option \<times> 'e option) \<times> 's" where
  "Connect api ctx connectionStr s =
     (case mongo_Connect api connectionStr s of
        (Inl err, s1) \<Rightarrow> ((None, Some err), s1)
      | (Inr cl, s1) \<Rightarrow>
          (case Ping api cl ctx s1 of
             (Some err, s2) \<Rightarrow> ((None, Some err), s2)
           | (None, s2) \<Rightarrow> ((Some \<lparr>Client = cl\<rparr>, None), s2)))"

text \<open>
  \<^verbatim>\<open>Connect(connectionStr)\<close> of \<^verbatim>\<open>mongo.go\<close>: the same, pinging under the background
  context (its struct field is the unexported \<^verbatim>\<open>client\<close>).
\<close>

definition Connect_bg ::
  "('cl, 'd, 'h, 'c, 'e, 's) client_api \<Rightarrow> string \<Rightarrow> 's
     \<Rightarrow> ('cl MongoClient option \<times> 'e option) \<times> 's" where
  "Connect_bg api connectionStr s =
     (case mongo_Connect api connectionStr s of
        (Inl err, s1) \<Rightarrow> ((None, Some err), s1)
      | (Inr cl, s1) \<Rightarrow>
          (case Ping api cl (Background api) s1 of
             (Some err, s2) \<Rightarrow> ((None, Some err), s2)
           | (None, s2) \<Rightarrow> ((Some \<lparr>Client = cl\<rparr>, None), s2)))"

definition Disconnect ::
  "('cl, 'd, 'h, 'c, 'e, 's) client_api \<Rightarrow> 'cl MongoClient \<Rightarrow> 'c \<Rightarrow> 's \<Rightarrow> 'e option \<times> 's" where
  "Disconnect api mc ctx s =
     (case cl_Disconnect api (Client mc) ctx s of
        (Some err, s1) \<Rightarrow> (Some err, s1)
      | (None, s1) \<Rightarrow> (None, s1))"

definition New ::
  "('cl, 'd, 'h, 'c, 'e, 's) client_api \<Rightarrow> 'cl \<Rightarrow> string \<Rightarrow> string \<Rightarrow> 'h MongoBaseRepository" where
  "New api cl databaseName collectionName =
     (let coll = Collection api (Database api cl databaseName) collectionName
      in \<lparr>collection = coll\<rparr>)"

section \<open>What the loop of FindAll computes\<close>

text \<open>
  Decoding a batch document by document, each into a fresh zero value, stopping at the
  first document that does not decode.
\<close>

fun decode_docs :: "('h, 'c, 'e, 'v, 't, 's) driver \<Rightarrow> 'v bsonM list \<Rightarrow> 'e + 't list" where
  "decode_docs drv [] = Inr []"
| "decode_docs drv (d # ds) =
     (case unmarshal drv d (zero drv) of
        (Some err, item) \<Rightarrow> Inl err
      | (None, item) \<Rightarrow>
          (case decode_docs drv ds of
             Inl err \<Rightarrow> Inl err
           | Inr items \<Rightarrow> Inr (item # items)))"

fun extend_slice :: "'a slice \<Rightarrow> 'a list \<Rightarrow> 'a slice" where
  "extend_slice sl [] = sl"
| "extend_slice sl (x # xs) = extend_slice (append_slice sl x) xs"

section \<open>A driver contract for field replacement\<close>

text \<open>
  What the database does with an update document is not the repository's code. The
  contract below says what the driver's \<^verbatim>\<open>$set\<close> operator and its find by \<^verbatim>\<open>_id\<close> mean, for
  every identifier, context and state, through a view \<open>docs\<close> of the state as the
  document stored under each identifier. A find with the filter \<^verbatim>\<open>{"_id": i}\<close> may fail;
  when it reports no error it has read the document stored under \<open>i\<close>, and it leaves the
  documents alone. An update with the filter \<^verbatim>\<open>{"_id": i}\<close> and the update document
  \<^verbatim>\<open>{"$set": update}\<close> may fail; when it reports no error, the document \<open>d\<close> stored under \<open>i\<close>
  has become \<open>replace_fields d update\<close>: each key of the mapping holds the mapping's
  value, every other field holds what it held. The contract says nothing of any other
  filter or update document.
\<close>

definition replace_fields :: "'v bsonM \<Rightarrow> 'v bsonM \<Rightarrow> 'v bsonM" where
  "replace_fields d update = (\<lambda>k. case update k of Some v \<Rightarrow> Some v | None \<Rightarrow> d k)"

definition find_by_id_reads ::
  "('h, 'c, 'e, 'v, 't, 's) driver \<Rightarrow> 'h \<Rightarrow> ('s \<Rightarrow> string \<Rightarrow> 'v bsonM option) \<Rightarrow> bool" where
  "find_by_id_reads drv h docs \<longleftrightarrow>
     (\<forall>ctx i s. case coll_FindOne drv h ctx (Map.empty(''_id'' \<mapsto> BStr i)) s of
        (sr, s1) \<Rightarrow>
          docs s1 = docs s \<and>
          (case sr_err sr of
             Some err \<Rightarrow> True
           | None \<Rightarrow> docs s i = Some (sr_rdr sr)))"

definition set_by_id_replaces ::
  "('h, 'c, 'e, 'v, 't, 's) driver \<Rightarrow> 'h \<Rightarrow> ('s \<Rightarrow> string \<Rightarrow> 'v bsonM option)
     \<Rightarrow> 'v bsonM \<Rightarrow> bool" where
  "set_by_id_replaces drv h docs update \<longleftrightarrow>
     (\<forall>ctx i s. case coll_UpdateOne drv h ctx (Map.empty(''_id'' \<mapsto> BStr i))
                       (Map.empty(''$set'' \<mapsto> BM update)) s of
        (Inl err, s1) \<Rightarrow> True
      | (Inr r, s1) \<Rightarrow>
          (case docs s i of
             None \<Rightarrow> docs s1 i = None
           | Some d \<Rightarrow> docs s1 i = Some (replace_fields d update)))"

section \<open>An in-memory driver\<close>

text \<open>
  A concrete driver to run the repository on: one collection held as the list of its
  documents in insertion order, filters matched on \<^verbatim>\<open>_id\<close> alone, updates by \<^verbatim>\<open>$set\<close> on
  top-level fields (refused when they would change \<^verbatim>\<open>_id\<close>), inserts refused on a
  duplicate \<^verbatim>\<open>_id\<close>, and the entity of the repository's tests, decoded field by field in the
  order \<^verbatim>\<open>_id\<close>, \<^verbatim>\<open>name\<close>, \<^verbatim>\<open>age\<close> under exactly these keys. It stands for a driver only at
  the inputs it is run on below; the theorems do not depend on it. The entity is
  \<^verbatim>\<open>TestEntity{ID string `bson:"_id,omitempty"`; Name string `bson:"name"`; Age int `bson:"age"`}\<close>.
\<close>

datatype mongo_error =
  ErrNoDocuments | CommandError nat | WriteError nat | DecodeError | URIError | ServerSelectionError

record TestEntity =
  ID :: string
  Name :: string
  Age :: int

definition marshal_TestEntity :: "TestEntity \<Rightarrow> int bsonM" where
  "marshal_TestEntity e =
     (let d = Map.empty(''name'' \<mapsto> BStr (Name e), ''age'' \<mapsto> BAny (Age e))
      in if ID e = [] then d else d(''_id'' \<mapsto> BStr (ID e)))"

definition unmarshal_TestEntity :: "int bsonM \<Rightarrow> TestEntity \<Rightarrow> mongo_error option \<times> TestEntity" where
  "unmarshal_TestEntity d target =
     (case d ''_id'' of
        Some (BAny v) \<Rightarrow> (Some DecodeError, target)
      | Some (BM m) \<Rightarrow> (Some DecodeError, target)
      | other_id \<Rightarrow>
          (let t1 = (case other_id of Some (BStr x) \<Rightarrow> target\<lparr>ID := x\<rparr> | _ \<Rightarrow> target)
           in case d ''name'' of
                Some (BAny v) \<Rightarrow> (Some DecodeError, t1)
              | Some (BM m) \<Rightarrow> (Some DecodeError, t1)
              | other_name \<Rightarrow>
                  (let t2 = (case other_name of Some (BStr x) \<Rightarrow> t1\<lparr>Name := x\<rparr> | _ \<Rightarrow> t1)
                   in case d ''age'' of
                        Some (BStr x) \<Rightarrow> (Some DecodeError, t2)
                      | Some (BM m) \<Rightarrow> (Some DecodeError, t2)
                      | Some (BAny n) \<Rightarrow> (None, t2\<lparr>Age := n\<rparr>)
                      | None \<Rightarrow> (None, t2))))"

definition matches :: "'v bsonM \<Rightarrow> 'v bsonM \<Rightarrow> bool" where
  "matches fltr d = (case fltr ''_id'' of None \<Rightarrow> True | Some v \<Rightarrow> d ''_id'' = Some v)"

fun update_first :: "('a \<Rightarrow> bool) \<Rightarrow> ('a \<Rightarrow> 'a) \<Rightarrow> 'a list \<Rightarrow> 'a list" where
  "update_first P f [] = []"
| "update_first P f (x # xs) = (if P x then f x # xs else x # update_first P f xs)"

fun delete_first :: "('a \<Rightarrow> bool) \<Rightarrow> 'a list \<Rightarrow> 'a list" where
  "delete_first P [] = []"
| "delete_first P (x # xs) = (if P x then xs else x # delete_first P xs)"

definition mem_InsertOne ::
  "'h \<Rightarrow> 'c \<Rightarrow> TestEntity \<Rightarrow> int bsonM list \<Rightarrow> (mongo_error + int InsertOneResult) \<times> int bsonM list" where
  "mem_InsertOne h ctx document s =
     (let d = marshal_TestEntity document
      in case find (\<lambda>d'. d' ''_id'' = d ''_id'') s of
           Some d' \<Rightarrow> (Inl (WriteError 11000), s)
         | None \<Rightarrow> (Inr \<lparr>InsertedID = BStr (ID document), ins_Acknowledged = True\<rparr>, s @ [d]))"

definition mem_FindOne ::
  "'h \<Rightarrow> 'c \<Rightarrow> int bsonM \<Rightarrow> int bsonM list \<Rightarrow> (mongo_error, int) SingleResult \<times> int bsonM list" where
  "mem_FindOne h ctx fltr s =
     (case find (matches fltr) s of
        None \<Rightarrow> (\<lparr>sr_err = Some ErrNoDocuments, sr_rdr = Map.empty\<rparr>, s)
      | Some d \<Rightarrow> (\<lparr>sr_err = None, sr_rdr = d\<rparr>, s))"

definition mem_Find ::
  "'h \<Rightarrow> 'c \<Rightarrow> int bsonM \<Rightarrow> int bsonM list
     \<Rightarrow> (mongo_error + (mongo_error, int) Cursor) \<times> int bsonM list" where
  "mem_Find h ctx fltr s =
     (Inr \<lparr>cur_batch = filter (matches fltr) s, Current = Map.empty, cur_err = None\<rparr>, s)"

definition mem_UpdateOne ::
  "'h \<Rightarrow> 'c \<Rightarrow> int bsonM \<Rightarrow> int bsonM \<Rightarrow> int bsonM list \<Rightarrow> (mongo_error + UpdateResult) \<times> int bsonM list" where
  "mem_UpdateOne h ctx fltr update s =
     (case update ''$set'' of
        Some (BM m) \<Rightarrow>
          (case find (matches fltr) s of
             None \<Rightarrow>
               (Inr \<lparr>MatchedCount = 0, ModifiedCount = 0, UpsertedCount = 0, upd_Acknowledged = True\<rparr>, s)
           | Some d \<Rightarrow>
               (if m ''_id'' = None \<or> m ''_id'' = d ''_id''
                then (Inr \<lparr>MatchedCount = 1, ModifiedCount = 1, UpsertedCount = 0,
                           upd_Acknowledged = True\<rparr>,
                      update_first (matches fltr) (\<lambda>d. replace_fields d m) s)
                else (Inl (WriteError 66), s)))
      | _ \<Rightarrow> (Inl (CommandError 9), s))"

definition mem_DeleteOne ::
  "'h \<Rightarrow> 'c \<Rightarrow> int bsonM \<Rightarrow> int bsonM list \<Rightarrow> (mongo_error + DeleteResult) \<times> int bsonM list" where
  "mem_DeleteOne h ctx fltr s =
     (case find (matches fltr) s of
        None \<Rightarrow> (Inr \<lparr>DeletedCount = 0, del_Acknowledged = True\<rparr>, s)
      | Some d \<Rightarrow> (Inr \<lparr>DeletedCount = 1, del_Acknowledged = True\<rparr>, delete_first (matches fltr) s))"

definition mem_driver :: "(unit, unit, mongo_error, int, TestEntity, int bsonM list) driver" where
  "mem_driver =
     \<lparr>coll_InsertOne = mem_InsertOne, coll_FindOne = mem_FindOne, coll_Find = mem_Find,
      coll_UpdateOne = mem_UpdateOne, coll_DeleteOne = mem_DeleteOne,
      cur_Close = (\<lambda>cursor ctx s. (None, s)),
      zero = \<lparr>ID = [], Name = [], Age = 0\<rparr>,
      unmarshal = unmarshal_TestEntity\<rparr>"

text \<open>
  Three drivers that fail: one whose server cannot be reached, so that every call returns
  an error, one whose cursor yields a first document and then breaks, and one whose
  cursors cannot be closed.
\<close>

definition down_driver :: "(unit, unit, mongo_error, int, TestEntity, int bsonM list) driver" where
  "down_driver =
     mem_driver
       \<lparr>coll_InsertOne := (\<lambda>h ctx document s. (Inl ServerSelectionError, s)),
        coll_FindOne := (\<lambda>h ctx fltr s. (\<lparr>sr_err = Some ServerSelectionError, sr_rdr = Map.empty\<rparr>, s)),
        coll_Find := (\<lambda>h ctx fltr s. (Inl ServerSelectionError, s)),
        coll_UpdateOne := (\<lambda>h ctx fltr update s. (Inl ServerSelectionError, s)),
        coll_DeleteOne := (\<lambda>h ctx fltr s. (Inl ServerSelectionError, s))\<rparr>"

definition flaky_driver :: "(unit, unit, mongo_error, int, TestEntity, int bsonM list) driver" where
  "flaky_driver =
     mem_driver
       \<lparr>coll_Find := (\<lambda>h ctx fltr s.
          (Inr \<lparr>cur_batch = take 1 (filter (matches fltr) s), Current = Map.empty,
                cur_err = Some ServerSelectionError\<rparr>, s))\<rparr>"

definition close_fails_driver :: "(unit, unit, mongo_error, int, TestEntity, int bsonM list) driver" where
  "close_fails_driver =
     mem_driver\<lparr>cur_Close := (\<lambda>cursor ctx s. (Some (CommandError 2), s))\<rparr>"

definition mem_view :: "int bsonM list \<Rightarrow> string \<Rightarrow> int bsonM option" where
  "mem_view s ident = find (matches (Map.empty(''_id'' \<mapsto> BStr ident))) s"

text \<open>The documents of the tests, and a client whose server answers pings when the state says so.\<close>

definition john :: "int bsonM" where
  "john = Map.empty(''_id'' \<mapsto> BStr ''test-id-1'', ''name'' \<mapsto> BStr ''John Doe'', ''age'' \<mapsto> BAny 30)"

definition jane :: "int bsonM" where
  "jane = Map.empty(''_id'' \<mapsto> BStr ''test-id-2'', ''name'' \<mapsto> BStr ''Jane Doe'', ''age'' \<mapsto> BAny 25)"

definition broken :: "int bsonM" where
  "broken = Map.empty(''_id'' \<mapsto> BStr ''test-id-3'', ''name'' \<mapsto> BStr ''No Age'', ''age'' \<mapsto> BStr ''old'')"

text \<open>The document of the specification's scenario.\<close>

definition ann :: "int bsonM" where
  "ann = Map.empty(''_id'' \<mapsto> BStr ''u1'', ''name'' \<mapsto> BStr ''Ann'', ''age'' \<mapsto> BAny 30)"

definition mem_world :: "int bsonM list \<Rightarrow> (unit, int bsonM list) world" where
  "mem_world s = \<lparr>this = \<lparr>collection = ()\<rparr>, db = s\<rparr>"

definition mem_client :: "(string, string, unit, unit, mongo_error, bool) client_api" where
  "mem_client =
     \<lparr>mongo_Connect = (\<lambda>uri up. if take 10 uri = ''mongodb://'' then (Inr uri, up) else (Inl URIError, up)),
      Ping = (\<lambda>cl ctx up. if up then (None, up) else (Some ServerSelectionError, up)),
      cl_Disconnect = (\<lambda>cl ctx up. (None, False)),
      Database = (\<lambda>cl name. name),
      Collection = (\<lambda>d name. ()),
      Background = ()\<rparr>"

section \<open>Lemmas on the cursor and the loop\<close>

lemma Next_Nil: "cur_batch cursor = [] \<Longrightarrow> Next cursor = (False, cursor)"
  by (simp add: Next_def)

lemma Next_Cons:
  "cur_batch cursor = d # ds \<Longrightarrow> Next cursor = (True, cursor\<lparr>cur_batch := ds, Current := d\<rparr>)"
  by (simp add: Next_def)

lemma FindAll_loop_result:
  "fst (FindAll_loop drv cursor results) =
     (case decode_docs drv (cur_batch cursor) of
        Inl err \<Rightarrow> Inl err
      | Inr items \<Rightarrow> Inr (extend_slice results items))"
proof (induction "cur_batch cursor" arbitrary: cursor results)
  case Nil
  then show ?case
    by (subst FindAll_loop.simps) (simp add: Next_Nil [OF Nil.hyps [symmetric]])
next
  case (Cons d ds)
  let ?c = "cursor\<lparr>cur_batch := ds, Current := d\<rparr>"
  have nxt: "Next cursor = (True, ?c)"
    using Cons.hyps(2) by (simp add: Next_Cons)
  have ih: "fst (FindAll_loop drv ?c r) =
     (case decode_docs drv ds of Inl err \<Rightarrow> Inl err | Inr items \<Rightarrow> Inr (extend_slice r items))" for r
    using Cons.hyps(1) [of ?c r] by simp
  show ?case
    by (subst FindAll_loop.simps)
       (simp add: nxt cur_Decode_def ih Cons.hyps(2) [symmetric] split: prod.splits option.splits sum.splits)
qed

lemma FindAll_loop_err:
  "cur_err (snd (FindAll_loop drv cursor results)) = cur_err cursor"
proof (induction "cur_batch cursor" arbitrary: cursor results)
  case Nil
  then show ?case
    by (subst FindAll_loop.simps) (simp add: Next_Nil [OF Nil.hyps [symmetric]])
next
  case (Cons d ds)
  let ?c = "cursor\<lparr>cur_batch := ds, Current := d\<rparr>"
  have nxt: "Next cursor = (True, ?c)"
    using Cons.hyps(2) by (simp add: Next_Cons)
  have ih: "cur_err (snd (FindAll_loop drv ?c r)) = cur_err cursor" for r
    using Cons.hyps(1) [of ?c r] by simp
  show ?case
    by (subst FindAll_loop.simps)
       (simp add: nxt ih split: prod.splits option.splits)
qed

lemma extend_slice_Slice: "extend_slice (Slice xs) ys = Slice (xs @ ys)"
  by (induction ys arbitrary: xs) simp_all

lemma extend_slice_Nil: "extend_slice NilSlice ys = (if ys = [] then NilSlice else Slice ys)"
  by (cases ys) (simp_all add: extend_slice_Slice)

lemma elems_extend_slice: "elems (extend_slice sl ys) = elems sl @ ys"
  by (cases sl) (simp_all add: extend_slice_Nil extend_slice_Slice)

lemma FindAll_found:
  assumes "coll_Find drv (collection (this w)) ctx fltr (db w) = (Inr cursor, s1)"
  shows "fst (FindAll drv ctx fltr w) =
     (case decode_docs drv (cur_batch cursor) of
        Inl err \<Rightarrow> (NilSlice, Some err)
      | Inr items \<Rightarrow>
          (case cur_err cursor of
             Some err \<Rightarrow> (NilSlice, Some err)
           | None \<Rightarrow> (extend_slice NilSlice items, None)))"
proof -
  obtain r cursor' where run: "FindAll_loop drv cursor NilSlice = (r, cursor')"
    by (cases "FindAll_loop drv cursor NilSlice")
  have r: "r = (case decode_docs drv (cur_batch cursor) of
                  Inl err \<Rightarrow> Inl err | Inr items \<Rightarrow> Inr (extend_slice NilSlice items))"
    using FindAll_loop_result [of drv cursor NilSlice] run by simp
  have e: "cur_err cursor' = cur_err cursor"
    using FindAll_loop_err [of drv cursor NilSlice] run by simp
  show ?thesis
    using assms run
    by (simp add: FindAll_def Err_def r e split: prod.splits sum.splits option.splits)
qed

lemma FindAll_not_found:
  assumes "coll_Find drv (collection (this w)) ctx fltr (db w) = (Inl err, s1)"
  shows "FindAll drv ctx fltr w = ((NilSlice, Some err), w\<lparr>db := s1\<rparr>)"
  using assms by (simp add: FindAll_def)

lemma decode_docs_all:
  "(\<forall>d\<in>set ds. fst (unmarshal drv d (zero drv)) = None)
   \<Longrightarrow> decode_docs drv ds = Inr (map (\<lambda>d. snd (unmarshal drv d (zero drv))) ds)"
  by (induction ds) (auto split: prod.splits option.splits)

lemma decode_docs_first_failure:
  "(\<forall>d\<in>set pre. fst (unmarshal drv d (zero drv)) = None)
   \<Longrightarrow> fst (unmarshal drv d (zero drv)) = Some e
   \<Longrightarrow> decode_docs drv (pre @ d # post) = Inl e"
  by (induction pre) (auto split: prod.splits option.splits sum.splits)

lemma decode_docs_Inr:
  "decode_docs drv ds = Inr items \<Longrightarrow> d \<in> set ds \<Longrightarrow> fst (unmarshal drv d (zero drv)) = None"
  by (induction ds arbitrary: items) (auto split: prod.splits option.splits sum.splits)

lemma decode_docs_some_failure:
  assumes "d \<in> set ds" and "fst (unmarshal drv d (zero drv)) \<noteq> None"
  shows "\<exists>e. decode_docs drv ds = Inl e"
proof (cases "decode_docs drv ds")
  case (Inl e)
  then show ?thesis by blast
next
  case (Inr items)
  from decode_docs_Inr [OF Inr assms(1)] assms(2) show ?thesis by simp
qed

section \<open>The in-memory driver at the documents of the tests\<close>

lemma mem_Find_all:
  "coll_Find mem_driver (collection (this (mem_world s))) () Map.empty (db (mem_world s)) =
     (Inr \<lparr>cur_batch = s, Current = Map.empty, cur_err = None\<rparr>, s)"
  by (simp add: mem_driver_def mem_world_def mem_Find_def matches_def)

lemma unmarshal_john:
  "unmarshal mem_driver john (zero mem_driver) = (None, \<lparr>ID = ''test-id-1'', Name = ''John Doe'', Age = 30\<rparr>)"
  by (simp add: mem_driver_def unmarshal_TestEntity_def john_def)

lemma unmarshal_jane:
  "unmarshal mem_driver jane (zero mem_driver) = (None, \<lparr>ID = ''test-id-2'', Name = ''Jane Doe'', Age = 25\<rparr>)"
  by (simp add: mem_driver_def unmarshal_TestEntity_def jane_def)

lemma unmarshal_broken:
  "unmarshal mem_driver broken (zero mem_driver) = (Some DecodeError, \<lparr>ID = ''test-id-3'', Name = ''No Age'', Age = 0\<rparr>)"
  by (simp add: mem_driver_def unmarshal_TestEntity_def broken_def)

lemma FindAll_john_broken:
  "fst (FindAll mem_driver () Map.empty (mem_world [john, broken])) = (NilSlice, Some DecodeError)"
  by (simp add: FindAll_found [OF mem_Find_all] unmarshal_john unmarshal_broken)

section \<open>FindAll\<close>

lemma FindAll_empty_cursor:
  assumes "coll_Find drv (collection (this w)) ctx fltr (db w) = (Inr cursor, s1)"
    and "cur_batch cursor = []"
    and "cur_err cursor = None"
  shows "fst (FindAll drv ctx fltr w) = (NilSlice, None)"
  unfolding FindAll_found [OF assms(1)] using assms(2,3) by simp

text \<open>
  C1. A find that succeeds and matches no document: \<^verbatim>\<open>results\<close> is declared as the nil
  slice and never appended to, so \<^verbatim>\<open>FindAll\<close> returns the nil slice with a nil error,
  which is not the empty non-nil slice. Here on the in-memory collection holding the
  two documents of the tests, asked for an identifier it does not hold.
\<close>

theorem FindAll_no_match_returns_nil:
  "FindAll mem_driver () (id_filter ''non-existent-id'') (mem_world [john, jane])
     = ((NilSlice, None), mem_world [john, jane])
   \<and> NilSlice \<noteq> (Slice [] :: TestEntity slice)"
proof -
  have f: "coll_Find mem_driver (collection (this (mem_world [john, jane]))) ()
             (id_filter ''non-existent-id'') (db (mem_world [john, jane]))
           = (Inr \<lparr>cur_batch = [], Current = Map.empty, cur_err = None\<rparr>, [john, jane])"
    by (simp add: mem_driver_def mem_world_def mem_Find_def matches_def id_filter_def john_def jane_def)
  have l: "FindAll_loop mem_driver \<lparr>cur_batch = [], Current = Map.empty, cur_err = None\<rparr> NilSlice
           = (Inr NilSlice, \<lparr>cur_batch = [], Current = Map.empty, cur_err = None\<rparr>)"
    by (subst FindAll_loop.simps) (simp add: Next_def)
  have c: "cur_Close mem_driver cursor () s = (None, s)" for cursor s
    by (simp add: mem_driver_def)
  show ?thesis
    using f by (simp add: FindAll_def l c Err_def mem_world_def)
qed

text \<open>
  C9. Whenever \<^verbatim>\<open>FindAll\<close> returns a non-nil error, the slice beside it is nil: no
  partial results come back with an error.
\<close>

theorem FindAll_error_returns_nil:
  "snd (fst (FindAll drv ctx fltr w)) \<noteq> None \<Longrightarrow> fst (fst (FindAll drv ctx fltr w)) = NilSlice"
  by (auto simp: FindAll_def Let_def split: prod.splits sum.splits option.splits)


theorem FindAll_error_returns_nil_witness:
  "snd (fst (FindAll mem_driver () Map.empty (mem_world [john, broken]))) \<noteq> None
   \<and> fst (fst (FindAll mem_driver () Map.empty (mem_world [john, broken]))) = NilSlice"
proof -
  have h: "snd (fst (FindAll mem_driver () Map.empty (mem_world [john, broken]))) \<noteq> None"
    by (simp add: FindAll_john_broken)
  show ?thesis
    using h FindAll_error_returns_nil [OF h] by simp
qed

lemma FindAll_all_decoded:
  assumes "coll_Find drv (collection (this w)) ctx fltr (db w) = (Inr cursor, s1)"
    and "cur_err cursor = None"
    and "\<forall>d\<in>set (cur_batch cursor). fst (unmarshal drv d (zero drv)) = None"
  shows "fst (FindAll drv ctx fltr w)
         = (extend_slice NilSlice (map (\<lambda>d. snd (unmarshal drv d (zero drv))) (cur_batch cursor)), None)"
proof -
  have dec: "decode_docs drv (cur_batch cursor)
                  = Inr (map (\<lambda>d. snd (unmarshal drv d (zero drv))) (cur_batch cursor))"
    using assms(3) by (rule decode_docs_all)
  show ?thesis
    unfolding FindAll_found [OF assms(1)] dec using assms(2) by simp
qed

lemma FindAll_some_undecoded:
  assumes "coll_Find drv (collection (this w)) ctx fltr (db w) = (Inr cursor, s1)"
    and "d \<in> set (cur_batch cursor)"
    and "fst (unmarshal drv d (zero drv)) \<noteq> None"
  shows "\<exists>e. fst (FindAll drv ctx fltr w) = (NilSlice, Some e)"
proof -
  obtain e where dec: "decode_docs drv (cur_batch cursor) = Inl e"
    using decode_docs_some_failure [OF assms(2,3)] by blast
  have "fst (FindAll drv ctx fltr w) = (NilSlice, Some e)"
    unfolding FindAll_found [OF assms(1)] dec by simp
  then show ?thesis by blast
qed


text \<open>
  C2. When the query succeeds, the cursor ends without an error and every document it
  yields decodes, \<^verbatim>\<open>FindAll\<close> returns the decoded entities, one for each document, in the
  order of the cursor, and a nil error. When some document it yields does not decode,
  the call returns an error and the nil slice.
\<close>

theorem FindAll_all_or_nothing:
  assumes "coll_Find drv (collection (this w)) ctx fltr (db w) = (Inr cursor, s1)"
  shows
    "(cur_err cursor = None \<and> (\<forall>d\<in>set (cur_batch cursor). fst (unmarshal drv d (zero drv)) = None)
        \<longrightarrow> snd (fst (FindAll drv ctx fltr w)) = None
          \<and> elems (fst (fst (FindAll drv ctx fltr w)))
              = map (\<lambda>d. snd (unmarshal drv d (zero drv))) (cur_batch cursor)
          \<and> len (fst (fst (FindAll drv ctx fltr w))) = length (cur_batch cursor))
     \<and> ((\<exists>d\<in>set (cur_batch cursor). fst (unmarshal drv d (zero drv)) \<noteq> None)
        \<longrightarrow> snd (fst (FindAll drv ctx fltr w)) \<noteq> None
          \<and> fst (fst (FindAll drv ctx fltr w)) = NilSlice)"
proof (intro conjI impI)
  assume ok: "cur_err cursor = None \<and> (\<forall>d\<in>set (cur_batch cursor). fst (unmarshal drv d (zero drv)) = None)"
  note res = FindAll_all_decoded [OF assms conjunct1 [OF ok] conjunct2 [OF ok]]
  show "snd (fst (FindAll drv ctx fltr w)) = None"
    unfolding res by simp
  show "elems (fst (fst (FindAll drv ctx fltr w)))
          = map (\<lambda>d. snd (unmarshal drv d (zero drv))) (cur_batch cursor)"
    unfolding res by (simp add: elems_extend_slice)
  show "len (fst (fst (FindAll drv ctx fltr w))) = length (cur_batch cursor)"
    unfolding res by (simp add: len_def elems_extend_slice)
next
  assume "\<exists>d\<in>set (cur_batch cursor). fst (unmarshal drv d (zero drv)) \<noteq> None"
  then obtain d where d: "d \<in> set (cur_batch cursor)" "fst (unmarshal drv d (zero drv)) \<noteq> None"
    by blast
  from FindAll_some_undecoded [OF assms d]
  obtain e where res: "fst (FindAll drv ctx fltr w) = (NilSlice, Some e)"
    by blast
  show "snd (fst (FindAll drv ctx fltr w)) \<noteq> None"
    unfolding res by simp
  show "fst (fst (FindAll drv ctx fltr w)) = NilSlice"
    unfolding res by simp
qed

theorem FindAll_all_or_nothing_witness:
  "elems (fst (fst (FindAll mem_driver () Map.empty (mem_world [john, jane]))))
     = [\<lparr>ID = ''test-id-1'', Name = ''John Doe'', Age = 30\<rparr>,
        \<lparr>ID = ''test-id-2'', Name = ''Jane Doe'', Age = 25\<rparr>]
   \<and> snd (fst (FindAll mem_driver () Map.empty (mem_world [john, jane]))) = None
   \<and> len (fst (fst (FindAll mem_driver () Map.empty (mem_world [john, jane])))) = 2
   \<and> fst (fst (FindAll mem_driver () Map.empty (mem_world [john, broken, jane]))) = NilSlice
   \<and> snd (fst (FindAll mem_driver () Map.empty (mem_world [john, broken, jane]))) \<noteq> None"
proof -
  have h1: "cur_err \<lparr>cur_batch = [john, jane], Current = Map.empty, cur_err = (None :: mongo_error option)\<rparr> = None
            \<and> (\<forall>d\<in>set (cur_batch \<lparr>cur_batch = [john, jane], Current = Map.empty,
                                     cur_err = (None :: mongo_error option)\<rparr>).
                  fst (unmarshal mem_driver d (zero mem_driver)) = None)"
    by (simp add: unmarshal_john unmarshal_jane)
  have h2: "\<exists>d\<in>set (cur_batch \<lparr>cur_batch = [john, broken, jane], Current = Map.empty,
                                 cur_err = (None :: mongo_error option)\<rparr>).
              fst (unmarshal mem_driver d (zero mem_driver)) \<noteq> None"
    by (simp add: unmarshal_broken)
  note ok = FindAll_all_or_nothing [OF mem_Find_all [of "[john, jane]"], THEN conjunct1, rule_format, OF h1]
  note bad = FindAll_all_or_nothing [OF mem_Find_all [of "[john, broken, jane]"], THEN conjunct2, rule_format, OF h2]
  show ?thesis
    using ok bad by (simp add: unmarshal_john unmarshal_jane)
qed

section \<open>FindOneById\<close>

lemma FindOneById_run:
  assumes "coll_FindOne drv (collection (this w)) ctx (id_filter ident) (db w) = (sr, s1)"
  shows "FindOneById drv ctx ident w =
           ((snd (sr_Decode drv sr (zero drv)), fst (sr_Decode drv sr (zero drv))), w\<lparr>db := s1\<rparr>)"
  using assms by (simp add: FindOneById_def Let_def split: prod.splits option.splits)

lemma mem_FindOne_missing:
  "coll_FindOne mem_driver (collection (this (mem_world [john, jane]))) ()
     (id_filter ''non-existent-id'') (db (mem_world [john, jane]))
   = (\<lparr>sr_err = Some ErrNoDocuments, sr_rdr = Map.empty\<rparr>, [john, jane])"
  by (simp add: mem_driver_def mem_world_def mem_FindOne_def matches_def id_filter_def john_def jane_def)

lemma mem_FindOne_john:
  "coll_FindOne mem_driver (collection (this (mem_world [john, jane]))) ()
     (id_filter ''test-id-1'') (db (mem_world [john, jane]))
   = (\<lparr>sr_err = None, sr_rdr = john\<rparr>, [john, jane])"
  by (simp add: mem_driver_def mem_world_def mem_FindOne_def matches_def id_filter_def john_def jane_def)

lemma mem_FindOne_broken:
  "coll_FindOne mem_driver (collection (this (mem_world [john, broken]))) ()
     (id_filter ''test-id-3'') (db (mem_world [john, broken]))
   = (\<lparr>sr_err = None, sr_rdr = broken\<rparr>, [john, broken])"
  by (simp add: mem_driver_def mem_world_def mem_FindOne_def matches_def id_filter_def john_def broken_def)

text \<open>
  C10. When the single result carries an error (for a find by identifier that matches
  no document, the driver's \<^verbatim>\<open>ErrNoDocuments\<close>), \<^verbatim>\<open>Decode\<close> returns it before decoding
  anything, and \<^verbatim>\<open>FindOneById\<close> returns the zero value of \<^verbatim>\<open>T\<close> beside that error.
\<close>

theorem FindOneById_no_match_zero_value:
  assumes "coll_FindOne drv (collection (this w)) ctx (id_filter ident) (db w) = (sr, s1)"
    and "sr_err sr = Some e"
  shows "fst (FindOneById drv ctx ident w) = (zero drv, Some e)"
  unfolding FindOneById_run [OF assms(1)] using assms(2) by (simp add: sr_Decode_def)

theorem FindOneById_no_match_zero_value_witness:
  "fst (FindOneById mem_driver () ''non-existent-id'' (mem_world [john, jane]))
     = (\<lparr>ID = [], Name = [], Age = 0\<rparr>, Some ErrNoDocuments)"
proof -
  have h: "sr_err \<lparr>sr_err = Some ErrNoDocuments, sr_rdr = (Map.empty :: int bsonM)\<rparr> = Some ErrNoDocuments"
    by simp
  show ?thesis
    using FindOneById_no_match_zero_value [OF mem_FindOne_missing h]
    by (simp add: mem_driver_def)
qed

text \<open>
  C3. \<^verbatim>\<open>FindOneById\<close> asks the driver for the one document whose \<^verbatim>\<open>_id\<close> is the given
  string, with the filter \<^verbatim>\<open>{"_id": id}\<close> and nothing else in it. Whatever the driver
  answers to that filter, an error carried by the single result (no document matched)
  and an error of decoding the document both come back as the error of the call, by the
  same return, with nothing added that tells one from the other; the call returns a nil
  error only when the result carries none and the document decodes.
\<close>

theorem FindOneById_by_id_or_error:
  assumes "coll_FindOne drv (collection (this w)) ctx (Map.empty(''_id'' \<mapsto> BStr ident)) (db w) = (sr, s1)"
  shows
    "(sr_err sr = Some e
        \<longrightarrow> FindOneById drv ctx ident w = ((zero drv, Some e), w\<lparr>db := s1\<rparr>))
     \<and> (sr_err sr = None \<and> unmarshal drv (sr_rdr sr) (zero drv) = (Some e, r)
        \<longrightarrow> FindOneById drv ctx ident w = ((r, Some e), w\<lparr>db := s1\<rparr>))
     \<and> (sr_err sr = None \<and> unmarshal drv (sr_rdr sr) (zero drv) = (None, r)
        \<longrightarrow> FindOneById drv ctx ident w = ((r, None), w\<lparr>db := s1\<rparr>))"
proof -
  have run: "FindOneById drv ctx ident w =
           ((snd (sr_Decode drv sr (zero drv)), fst (sr_Decode drv sr (zero drv))), w\<lparr>db := s1\<rparr>)"
    using assms by (intro FindOneById_run) (simp add: id_filter_def)
  show ?thesis
    unfolding run by (simp add: sr_Decode_def)
qed

theorem FindOneById_by_id_or_error_witness:
  "FindOneById mem_driver () ''non-existent-id'' (mem_world [john, jane])
     = ((\<lparr>ID = [], Name = [], Age = 0\<rparr>, Some ErrNoDocuments), mem_world [john, jane])
   \<and> FindOneById mem_driver () ''test-id-3'' (mem_world [john, broken])
     = ((\<lparr>ID = ''test-id-3'', Name = ''No Age'', Age = 0\<rparr>, Some DecodeError), mem_world [john, broken])
   \<and> FindOneById mem_driver () ''test-id-1'' (mem_world [john, jane])
     = ((\<lparr>ID = ''test-id-1'', Name = ''John Doe'', Age = 30\<rparr>, None), mem_world [john, jane])"
proof -
  have ha: "sr_err \<lparr>sr_err = Some ErrNoDocuments, sr_rdr = (Map.empty :: int bsonM)\<rparr> = Some ErrNoDocuments"
    by simp
  have hb: "sr_err \<lparr>sr_err = (None :: mongo_error option), sr_rdr = broken\<rparr> = None
            \<and> unmarshal mem_driver (sr_rdr \<lparr>sr_err = (None :: mongo_error option), sr_rdr = broken\<rparr>)
                 (zero mem_driver)
              = (Some DecodeError, \<lparr>ID = ''test-id-3'', Name = ''No Age'', Age = 0\<rparr>)"
    by (simp add: unmarshal_broken)
  have hc: "sr_err \<lparr>sr_err = (None :: mongo_error option), sr_rdr = john\<rparr> = None
            \<and> unmarshal mem_driver (sr_rdr \<lparr>sr_err = (None :: mongo_error option), sr_rdr = john\<rparr>)
                 (zero mem_driver)
              = (None, \<lparr>ID = ''test-id-1'', Name = ''John Doe'', Age = 30\<rparr>)"
    by (simp add: unmarshal_john)
  note a = FindOneById_by_id_or_error
    [OF mem_FindOne_missing [unfolded id_filter_def], THEN conjunct1, THEN mp, OF ha]
  note b = FindOneById_by_id_or_error
    [OF mem_FindOne_broken [unfolded id_filter_def], THEN conjunct2, THEN conjunct1, THEN mp, OF hb]
  note c = FindOneById_by_id_or_error
    [OF mem_FindOne_john [unfolded id_filter_def], THEN conjunct2, THEN conjunct2, THEN mp, OF hc]
  have za: "zero mem_driver = \<lparr>ID = [], Name = [], Age = 0\<rparr>"
    by (simp add: mem_driver_def)
  show ?thesis
    using a b c by (simp add: za mem_world_def)
qed

section \<open>UpdateOneById, DeleteOneById and the repository object\<close>

lemma mem_UpdateOne_missing:
  "coll_UpdateOne mem_driver (collection (this (mem_world [john, jane]))) ()
     (id_filter ''non-existent-id'') (set_document (Map.empty(''age'' \<mapsto> BAny 31)))
     (db (mem_world [john, jane]))
   = (Inr \<lparr>MatchedCount = 0, ModifiedCount = 0, UpsertedCount = 0, upd_Acknowledged = True\<rparr>,
      [john, jane])"
  by (simp add: mem_driver_def mem_world_def mem_UpdateOne_def matches_def id_filter_def
      set_document_def john_def jane_def)

lemma mem_DeleteOne_missing:
  "coll_DeleteOne mem_driver (collection (this (mem_world [john, jane]))) ()
     (id_filter ''non-existent-id'') (db (mem_world [john, jane]))
   = (Inr \<lparr>DeletedCount = 0, del_Acknowledged = True\<rparr>, [john, jane])"
  by (simp add: mem_driver_def mem_world_def mem_DeleteOne_def matches_def id_filter_def
      john_def jane_def)

text \<open>
  C5. \<^verbatim>\<open>UpdateOneById\<close> and \<^verbatim>\<open>DeleteOneById\<close> discard the driver's result: whenever the
  driver returns no error, whatever the matched, modified or deleted counts of its
  result (zero among them, for an identifier no document has), the call returns nil.
\<close>

theorem update_delete_ignore_counts:
  "(coll_UpdateOne drv (collection (this w)) ctx (id_filter ident) (set_document update) (db w)
      = (Inr ur, s1)
      \<longrightarrow> UpdateOneById drv ctx ident update w = (None, w\<lparr>db := s1\<rparr>))
   \<and> (coll_DeleteOne drv (collection (this w)) ctx (id_filter ident) (db w) = (Inr dr, s2)
      \<longrightarrow> DeleteOneById drv ctx ident w = (None, w\<lparr>db := s2\<rparr>))"
  by (simp add: UpdateOneById_def DeleteOneById_def)

theorem update_delete_ignore_counts_witness:
  "MatchedCount \<lparr>MatchedCount = 0, ModifiedCount = 0, UpsertedCount = 0, upd_Acknowledged = True\<rparr> = 0
   \<and> UpdateOneById mem_driver () ''non-existent-id'' (Map.empty(''age'' \<mapsto> BAny 31))
        (mem_world [john, jane])
      = (None, mem_world [john, jane])
   \<and> DeletedCount \<lparr>DeletedCount = 0, del_Acknowledged = True\<rparr> = 0
   \<and> DeleteOneById mem_driver () ''non-existent-id'' (mem_world [john, jane])
      = (None, mem_world [john, jane])"
proof -
  note u = update_delete_ignore_counts [THEN conjunct1, THEN mp, OF mem_UpdateOne_missing]
  note d = update_delete_ignore_counts [THEN conjunct2, THEN mp, OF mem_DeleteOne_missing]
  show ?thesis
    using u d by (simp add: mem_world_def)
qed

text \<open>
  C8. None of the five operations changes the repository object; \<^verbatim>\<open>New\<close> sets its
  collection handle, and that handle is the only field it has.
\<close>

theorem repository_never_mutated:
  "this (snd (InsertOne drv ctx document w)) = this w
   \<and> this (snd (FindOneById drv ctx ident w)) = this w
   \<and> this (snd (FindAll drv ctx fltr w)) = this w
   \<and> this (snd (UpdateOneById drv ctx ident update w)) = this w
   \<and> this (snd (DeleteOneById drv ctx ident w)) = this w
   \<and> New api cl databaseName collectionName
        = \<lparr>collection = Collection api (Database api cl databaseName) collectionName\<rparr>
   \<and> (repo :: 'h MongoBaseRepository) = \<lparr>collection = collection repo\<rparr>"
proof (intro conjI)
  show "this (snd (InsertOne drv ctx document w)) = this w"
    by (simp add: InsertOne_def split: prod.splits sum.splits)
  show "this (snd (FindOneById drv ctx ident w)) = this w"
    by (simp add: FindOneById_def Let_def split: prod.splits option.splits)
  show "this (snd (FindAll drv ctx fltr w)) = this w"
    by (simp add: FindAll_def Let_def split: prod.splits sum.splits)
  show "this (snd (UpdateOneById drv ctx ident update w)) = this w"
    by (simp add: UpdateOneById_def Let_def split: prod.splits sum.splits)
  show "this (snd (DeleteOneById drv ctx ident w)) = this w"
    by (simp add: DeleteOneById_def Let_def split: prod.splits sum.splits)
  show "New api cl databaseName collectionName
        = \<lparr>collection = Collection api (Database api cl databaseName) collectionName\<rparr>"
    by (simp add: New_def)
  show "repo = \<lparr>collection = collection repo\<rparr>"
    by simp
qed

section \<open>Errors of the driver\<close>

lemma FindAll_first_undecoded:
  assumes "coll_Find drv (collection (this w)) ctx fltr (db w) = (Inr cursor, s1)"
    and "cur_batch cursor = pre @ d # post"
    and "\<forall>d'\<in>set pre. fst (unmarshal drv d' (zero drv)) = None"
    and "fst (unmarshal drv d (zero drv)) = Some e"
  shows "fst (FindAll drv ctx fltr w) = (NilSlice, Some e)"
proof -
  have dec: "decode_docs drv (cur_batch cursor) = Inl e"
    unfolding assms(2) using assms(3,4) by (rule decode_docs_first_failure)
  show ?thesis
    unfolding FindAll_found [OF assms(1)] dec by simp
qed

lemma FindAll_cursor_error:
  assumes "coll_Find drv (collection (this w)) ctx fltr (db w) = (Inr cursor, s1)"
    and "\<forall>d\<in>set (cur_batch cursor). fst (unmarshal drv d (zero drv)) = None"
    and "cur_err cursor = Some e"
  shows "fst (FindAll drv ctx fltr w) = (NilSlice, Some e)"
proof -
  have dec: "decode_docs drv (cur_batch cursor)
                  = Inr (map (\<lambda>d. snd (unmarshal drv d (zero drv))) (cur_batch cursor))"
    using assms(2) by (rule decode_docs_all)
  show ?thesis
    unfolding FindAll_found [OF assms(1)] dec using assms(3) by simp
qed

lemma down_driver_calls:
  "coll_InsertOne down_driver h ctx document s = (Inl ServerSelectionError, s)"
  "coll_FindOne down_driver h ctx fltr s = (\<lparr>sr_err = Some ServerSelectionError, sr_rdr = Map.empty\<rparr>, s)"
  "coll_Find down_driver h ctx fltr s = (Inl ServerSelectionError, s)"
  "coll_UpdateOne down_driver h ctx fltr update s = (Inl ServerSelectionError, s)"
  "coll_DeleteOne down_driver h ctx fltr s = (Inl ServerSelectionError, s)"
  by (simp_all add: down_driver_def)

lemma flaky_Find_all:
  "coll_Find flaky_driver (collection (this (mem_world [john, jane]))) () Map.empty
     (db (mem_world [john, jane]))
   = (Inr \<lparr>cur_batch = [john], Current = Map.empty, cur_err = Some ServerSelectionError\<rparr>, [john, jane])"
  by (simp add: flaky_driver_def mem_world_def matches_def)

lemma flaky_unmarshal_john:
  "unmarshal flaky_driver john (zero flaky_driver)
     = (None, \<lparr>ID = ''test-id-1'', Name = ''John Doe'', Age = 30\<rparr>)"
  using unmarshal_john by (simp add: flaky_driver_def)

lemma close_fails_calls:
  "coll_Find close_fails_driver h ctx fltr s = coll_Find mem_driver h ctx fltr s"
  "unmarshal close_fails_driver = unmarshal mem_driver"
  "zero close_fails_driver = zero mem_driver"
  "cur_Close close_fails_driver cursor ctx s = (Some (CommandError 2), s)"
  by (simp_all add: close_fails_driver_def)

lemma close_fails_Find_all:
  "coll_Find close_fails_driver (collection (this (mem_world s))) () Map.empty (db (mem_world s)) =
     (Inr \<lparr>cur_batch = s, Current = Map.empty, cur_err = None\<rparr>, s)"
  unfolding close_fails_calls(1) by (rule mem_Find_all)

lemma close_fails_decode:
  "decode_docs close_fails_driver
     (cur_batch \<lparr>cur_batch = [john, jane], Current = Map.empty, cur_err = (None :: mongo_error option)\<rparr>)
     = Inr [\<lparr>ID = ''test-id-1'', Name = ''John Doe'', Age = 30\<rparr>,
            \<lparr>ID = ''test-id-2'', Name = ''Jane Doe'', Age = 25\<rparr>]"
  by (simp add: close_fails_calls unmarshal_john unmarshal_jane)

text \<open>
  The deferred \<^verbatim>\<open>cursor.Close(ctx)\<close> of \<^verbatim>\<open>FindAll\<close> is a call of the driver whose error is
  dropped: on a driver whose cursors cannot be closed, with both documents decoding,
  \<^verbatim>\<open>FindAll\<close> returns the two entities and a nil error.
\<close>

theorem FindAll_discards_Close_error:
  "cur_Close close_fails_driver
       (snd (FindAll_loop close_fails_driver
               \<lparr>cur_batch = [john, jane], Current = Map.empty, cur_err = None\<rparr> NilSlice))
       () [john, jane]
     = (Some (CommandError 2), [john, jane])
   \<and> fst (FindAll close_fails_driver () Map.empty (mem_world [john, jane]))
     = (Slice [\<lparr>ID = ''test-id-1'', Name = ''John Doe'', Age = 30\<rparr>,
               \<lparr>ID = ''test-id-2'', Name = ''Jane Doe'', Age = 25\<rparr>], None)"
proof (intro conjI)
  show "cur_Close close_fails_driver
       (snd (FindAll_loop close_fails_driver
               \<lparr>cur_batch = [john, jane], Current = Map.empty, cur_err = None\<rparr> NilSlice))
       () [john, jane]
     = (Some (CommandError 2), [john, jane])"
    by (rule close_fails_calls(4))
  show "fst (FindAll close_fails_driver () Map.empty (mem_world [john, jane]))
     = (Slice [\<lparr>ID = ''test-id-1'', Name = ''John Doe'', Age = 30\<rparr>,
               \<lparr>ID = ''test-id-2'', Name = ''Jane Doe'', Age = 25\<rparr>], None)"
    unfolding FindAll_found [OF close_fails_Find_all] close_fails_decode
    by (simp add: extend_slice_Nil)
qed

text \<open>
  C7. Every error of the driver but that of the deferred \<^verbatim>\<open>cursor.Close\<close> comes back
  as it is, and the state is what that one failing call left (the deferred close after
  it, in \<^verbatim>\<open>FindAll\<close>): the error of \<^verbatim>\<open>InsertOne\<close>, \<^verbatim>\<open>UpdateOne\<close> and \<^verbatim>\<open>DeleteOne\<close>, the error
  \<^verbatim>\<open>Decode\<close> gives on the single result of \<^verbatim>\<open>FindOne\<close>, and for \<^verbatim>\<open>FindAll\<close> the error of
  \<^verbatim>\<open>Find\<close>, the error of the first document that does not decode, and the error of the
  cursor after the loop. Whatever \<^verbatim>\<open>Close\<close> returns, error or not, has no part in what
  \<^verbatim>\<open>FindAll\<close> returns; only the state it leaves is kept.
\<close>

theorem driver_errors_returned_except_Close:
  "(coll_InsertOne drv (collection (this w)) ctx document (db w) = (Inl e, s1)
      \<longrightarrow> InsertOne drv ctx document w = (Some e, w\<lparr>db := s1\<rparr>))
   \<and> (coll_FindOne drv (collection (this w)) ctx (id_filter ident) (db w) = (sr, s1)
        \<and> sr_Decode drv sr (zero drv) = (Some e, r)
      \<longrightarrow> FindOneById drv ctx ident w = ((r, Some e), w\<lparr>db := s1\<rparr>))
   \<and> (coll_Find drv (collection (this w)) ctx fltr (db w) = (Inl e, s1)
      \<longrightarrow> FindAll drv ctx fltr w = ((NilSlice, Some e), w\<lparr>db := s1\<rparr>))
   \<and> (coll_Find drv (collection (this w)) ctx fltr (db w) = (Inr cursor, s1)
        \<and> cur_batch cursor = pre @ d # post
        \<and> (\<forall>d'\<in>set pre. fst (unmarshal drv d' (zero drv)) = None)
        \<and> fst (unmarshal drv d (zero drv)) = Some e
      \<longrightarrow> fst (FindAll drv ctx fltr w) = (NilSlice, Some e))
   \<and> (coll_Find drv (collection (this w)) ctx fltr (db w) = (Inr cursor, s1)
        \<and> (\<forall>d\<in>set (cur_batch cursor). fst (unmarshal drv d (zero drv)) = None)
        \<and> cur_err cursor = Some e
      \<longrightarrow> fst (FindAll drv ctx fltr w) = (NilSlice, Some e))
   \<and> (coll_UpdateOne drv (collection (this w)) ctx (id_filter ident) (set_document update) (db w)
        = (Inl e, s1)
      \<longrightarrow> UpdateOneById drv ctx ident update w = (Some e, w\<lparr>db := s1\<rparr>))
   \<and> (coll_DeleteOne drv (collection (this w)) ctx (id_filter ident) (db w) = (Inl e, s1)
      \<longrightarrow> DeleteOneById drv ctx ident w = (Some e, w\<lparr>db := s1\<rparr>))
   \<and> (coll_Find drv (collection (this w)) ctx fltr (db w) = (Inr cursor, s1)
        \<and> FindAll_loop drv cursor NilSlice = (lr, cursor')
        \<and> cur_Close drv cursor' ctx s1 = (ce, s2)
      \<longrightarrow> FindAll drv ctx fltr w =
            ((case lr of
                Inl err \<Rightarrow> (NilSlice, Some err)
              | Inr results \<Rightarrow>
                  (case cur_err cursor' of
                     Some err \<Rightarrow> (NilSlice, Some err)
                   | None \<Rightarrow> (results, None))),
             w\<lparr>db := s2\<rparr>))"
proof (intro conjI impI)
  assume "coll_InsertOne drv (collection (this w)) ctx document (db w) = (Inl e, s1)"
  then show "InsertOne drv ctx document w = (Some e, w\<lparr>db := s1\<rparr>)"
    by (simp add: InsertOne_def)
next
  assume a: "coll_FindOne drv (collection (this w)) ctx (id_filter ident) (db w) = (sr, s1)
             \<and> sr_Decode drv sr (zero drv) = (Some e, r)"
  show "FindOneById drv ctx ident w = ((r, Some e), w\<lparr>db := s1\<rparr>)"
    unfolding FindOneById_run [OF conjunct1 [OF a]] using conjunct2 [OF a] by simp
next
  assume "coll_Find drv (collection (this w)) ctx fltr (db w) = (Inl e, s1)"
  then show "FindAll drv ctx fltr w = ((NilSlice, Some e), w\<lparr>db := s1\<rparr>)"
    by (rule FindAll_not_found)
next
  assume a: "coll_Find drv (collection (this w)) ctx fltr (db w) = (Inr cursor, s1)
        \<and> cur_batch cursor = pre @ d # post
        \<and> (\<forall>d'\<in>set pre. fst (unmarshal drv d' (zero drv)) = None)
        \<and> fst (unmarshal drv d (zero drv)) = Some e"
  show "fst (FindAll drv ctx fltr w) = (NilSlice, Some e)"
    using a by (intro FindAll_first_undecoded [of drv w ctx fltr cursor s1 pre d post e]) simp_all
next
  assume a: "coll_Find drv (collection (this w)) ctx fltr (db w) = (Inr cursor, s1)
        \<and> (\<forall>d\<in>set (cur_batch cursor). fst (unmarshal drv d (zero drv)) = None)
        \<and> cur_err cursor = Some e"
  show "fst (FindAll drv ctx fltr w) = (NilSlice, Some e)"
    using a by (intro FindAll_cursor_error [of drv w ctx fltr cursor s1 e]) simp_all
next
  assume "coll_UpdateOne drv (collection (this w)) ctx (id_filter ident) (set_document update) (db w)
        = (Inl e, s1)"
  then show "UpdateOneById drv ctx ident update w = (Some e, w\<lparr>db := s1\<rparr>)"
    by (simp add: UpdateOneById_def)
next
  assume "coll_DeleteOne drv (collection (this w)) ctx (id_filter ident) (db w) = (Inl e, s1)"
  then show "DeleteOneById drv ctx ident w = (Some e, w\<lparr>db := s1\<rparr>)"
    by (simp add: DeleteOneById_def)
next
  assume "coll_Find drv (collection (this w)) ctx fltr (db w) = (Inr cursor, s1)
        \<and> FindAll_loop drv cursor NilSlice = (lr, cursor')
        \<and> cur_Close drv cursor' ctx s1 = (ce, s2)"
  then show "FindAll drv ctx fltr w =
            ((case lr of
                Inl err \<Rightarrow> (NilSlice, Some err)
              | Inr results \<Rightarrow>
                  (case cur_err cursor' of
                     Some err \<Rightarrow> (NilSlice, Some err)
                   | None \<Rightarrow> (results, None))),
             w\<lparr>db := s2\<rparr>)"
    by (simp add: FindAll_def Err_def split: sum.splits)
qed


theorem driver_errors_returned_except_Close_witness:
  "InsertOne down_driver () \<lparr>ID = ''test-id-2'', Name = ''Jane Doe'', Age = 25\<rparr> (mem_world [john])
     = (Some ServerSelectionError, mem_world [john])
   \<and> FindOneById mem_driver () ''non-existent-id'' (mem_world [john, jane])
     = ((\<lparr>ID = [], Name = [], Age = 0\<rparr>, Some ErrNoDocuments), mem_world [john, jane])
   \<and> FindAll down_driver () Map.empty (mem_world [john])
     = ((NilSlice, Some ServerSelectionError), mem_world [john])
   \<and> fst (FindAll mem_driver () Map.empty (mem_world [john, broken, jane]))
     = (NilSlice, Some DecodeError)
   \<and> fst (FindAll flaky_driver () Map.empty (mem_world [john, jane]))
     = (NilSlice, Some ServerSelectionError)
   \<and> UpdateOneById down_driver () ''test-id-1'' (Map.empty(''age'' \<mapsto> BAny 31)) (mem_world [john])
     = (Some ServerSelectionError, mem_world [john])
   \<and> DeleteOneById down_driver () ''test-id-1'' (mem_world [john])
     = (Some ServerSelectionError, mem_world [john])
   \<and> FindAll close_fails_driver () Map.empty (mem_world [john, jane])
     = ((Slice [\<lparr>ID = ''test-id-1'', Name = ''John Doe'', Age = 30\<rparr>,
                \<lparr>ID = ''test-id-2'', Name = ''Jane Doe'', Age = 25\<rparr>], None),
        mem_world [john, jane])"
proof -
  note all = driver_errors_returned_except_Close
  have h2: "coll_FindOne mem_driver (collection (this (mem_world [john, jane]))) ()
              (id_filter ''non-existent-id'') (db (mem_world [john, jane]))
            = (\<lparr>sr_err = Some ErrNoDocuments, sr_rdr = Map.empty\<rparr>, [john, jane])
          \<and> sr_Decode mem_driver \<lparr>sr_err = Some ErrNoDocuments, sr_rdr = Map.empty\<rparr> (zero mem_driver)
            = (Some ErrNoDocuments, \<lparr>ID = [], Name = [], Age = 0\<rparr>)"
  proof (intro conjI)
    show "coll_FindOne mem_driver (collection (this (mem_world [john, jane]))) ()
              (id_filter ''non-existent-id'') (db (mem_world [john, jane]))
            = (\<lparr>sr_err = Some ErrNoDocuments, sr_rdr = Map.empty\<rparr>, [john, jane])"
      by (rule mem_FindOne_missing)
    show "sr_Decode mem_driver \<lparr>sr_err = Some ErrNoDocuments, sr_rdr = Map.empty\<rparr> (zero mem_driver)
            = (Some ErrNoDocuments, \<lparr>ID = [], Name = [], Age = 0\<rparr>)"
      by (simp add: sr_Decode_def mem_driver_def)
  qed
  have h4: "coll_Find mem_driver (collection (this (mem_world [john, broken, jane]))) () Map.empty
              (db (mem_world [john, broken, jane]))
            = (Inr \<lparr>cur_batch = [john, broken, jane], Current = Map.empty, cur_err = None\<rparr>,
               [john, broken, jane])
          \<and> cur_batch \<lparr>cur_batch = [john, broken, jane], Current = Map.empty,
                        cur_err = (None :: mongo_error option)\<rparr> = [john] @ broken # [jane]
          \<and> (\<forall>d'\<in>set [john]. fst (unmarshal mem_driver d' (zero mem_driver)) = None)
          \<and> fst (unmarshal mem_driver broken (zero mem_driver)) = Some DecodeError"
    by (intro conjI, rule mem_Find_all) (simp_all add: unmarshal_john unmarshal_broken)
  have h5: "coll_Find flaky_driver (collection (this (mem_world [john, jane]))) () Map.empty
              (db (mem_world [john, jane]))
            = (Inr \<lparr>cur_batch = [john], Current = Map.empty, cur_err = Some ServerSelectionError\<rparr>,
               [john, jane])
          \<and> (\<forall>d\<in>set (cur_batch \<lparr>cur_batch = [john], Current = Map.empty,
                                     cur_err = Some ServerSelectionError\<rparr>).
                fst (unmarshal flaky_driver d (zero flaky_driver)) = None)
          \<and> cur_err \<lparr>cur_batch = [john], Current = (Map.empty :: int bsonM),
                      cur_err = Some ServerSelectionError\<rparr> = Some ServerSelectionError"
    by (intro conjI, rule flaky_Find_all) (simp_all add: flaky_unmarshal_john)
  note c1 = all [THEN conjunct1, THEN mp, OF down_driver_calls(1)
      [of "collection (this (mem_world [john]))" "()"
          "\<lparr>ID = ''test-id-2'', Name = ''Jane Doe'', Age = 25\<rparr>" "db (mem_world [john])"]]
  note c2 = all [THEN conjunct2, THEN conjunct1, THEN mp, OF h2]
  note c3 = all [THEN conjunct2, THEN conjunct2, THEN conjunct1, THEN mp, OF down_driver_calls(3)
      [of "collection (this (mem_world [john]))" "()" Map.empty "db (mem_world [john])"]]
  note c4 = all [THEN conjunct2, THEN conjunct2, THEN conjunct2, THEN conjunct1, THEN mp, OF h4]
  note c5 = all [THEN conjunct2, THEN conjunct2, THEN conjunct2, THEN conjunct2, THEN conjunct1,
                 THEN mp, OF h5]
  note c6 = all [THEN conjunct2, THEN conjunct2, THEN conjunct2, THEN conjunct2, THEN conjunct2,
                 THEN conjunct1, THEN mp,
                 OF down_driver_calls(4)
                   [of "collection (this (mem_world [john]))" "()" "id_filter ''test-id-1''"
                       "set_document (Map.empty(''age'' \<mapsto> BAny 31))" "db (mem_world [john])"]]
  note c7 = all [THEN conjunct2, THEN conjunct2, THEN conjunct2, THEN conjunct2, THEN conjunct2,
                 THEN conjunct2, THEN conjunct1, THEN mp,
                 OF down_driver_calls(5)
                   [of "collection (this (mem_world [john]))" "()" "id_filter ''test-id-1''"
                       "db (mem_world [john])"]]
  let ?c = "\<lparr>cur_batch = [john, jane], Current = Map.empty, cur_err = (None :: mongo_error option)\<rparr>"
  let ?run = "FindAll_loop close_fails_driver ?c NilSlice"
  have h8: "coll_Find close_fails_driver (collection (this (mem_world [john, jane]))) () Map.empty
              (db (mem_world [john, jane])) = (Inr ?c, [john, jane])
          \<and> ?run = (fst ?run, snd ?run)
          \<and> cur_Close close_fails_driver (snd ?run) () [john, jane]
              = (Some (CommandError 2), [john, jane])"
    by (intro conjI, rule close_fails_Find_all) (simp_all add: close_fails_calls(4))
  have r8: "fst ?run = Inr (Slice [\<lparr>ID = ''test-id-1'', Name = ''John Doe'', Age = 30\<rparr>,
                                  \<lparr>ID = ''test-id-2'', Name = ''Jane Doe'', Age = 25\<rparr>])"
    unfolding FindAll_loop_result close_fails_decode by (simp add: extend_slice_Nil)
  have e8: "cur_err (snd ?run) = None"
    unfolding FindAll_loop_err by simp
  note c8 = all [THEN conjunct2, THEN conjunct2, THEN conjunct2, THEN conjunct2, THEN conjunct2,
                 THEN conjunct2, THEN conjunct2, THEN mp, OF h8, unfolded r8 e8]
  have w: "mem_world s\<lparr>db := s\<rparr> = mem_world s" for s :: "int bsonM list"
    by (simp add: mem_world_def)
  have d: "db (mem_world s) = s" for s :: "int bsonM list"
    by (simp add: mem_world_def)
  show ?thesis
    using c1 c2 c3 c4 c5 c6 c7 c8
    by (simp add: w d)
qed

section \<open>Connect\<close>

lemma mem_client_calls:
  "mongo_Connect mem_client ''mongodb://localhost:27017'' up = (Inr ''mongodb://localhost:27017'', up)"
  "mongo_Connect mem_client ''localhost:27017'' up = (Inl URIError, up)"
  "Ping mem_client cl ctx True = (None, True)"
  "Ping mem_client cl ctx False = (Some ServerSelectionError, False)"
  by (simp_all add: mem_client_def)

text \<open>
  C6. Both variants of \<^verbatim>\<open>Connect\<close> build the client first and ping it next, once each, on
  the state the construction left. An error of the construction comes back as it is,
  with no ping; an error of the ping comes back as it is; the client, wrapped, comes
  back with a nil error exactly when the construction and the ping both succeed.
\<close>

theorem Connect_succeeds_iff_client_and_ping:
  "(mongo_Connect api connectionStr s = (Inl e, s1)
      \<longrightarrow> Connect api ctx connectionStr s = ((None, Some e), s1)
        \<and> Connect_bg api connectionStr s = ((None, Some e), s1))
   \<and> (mongo_Connect api connectionStr s = (Inr cl, s1) \<and> Ping api cl ctx s1 = (Some e, s2)
      \<longrightarrow> Connect api ctx connectionStr s = ((None, Some e), s2))
   \<and> (mongo_Connect api connectionStr s = (Inr cl, s1) \<and> Ping api cl ctx s1 = (None, s2)
      \<longrightarrow> Connect api ctx connectionStr s = ((Some \<lparr>Client = cl\<rparr>, None), s2))
   \<and> (mongo_Connect api connectionStr s = (Inr cl, s1) \<and> Ping api cl (Background api) s1 = (Some e, s2)
      \<longrightarrow> Connect_bg api connectionStr s = ((None, Some e), s2))
   \<and> (mongo_Connect api connectionStr s = (Inr cl, s1) \<and> Ping api cl (Background api) s1 = (None, s2)
      \<longrightarrow> Connect_bg api connectionStr s = ((Some \<lparr>Client = cl\<rparr>, None), s2))
   \<and> ((\<exists>mc. fst (Connect api ctx connectionStr s) = (Some mc, None))
        \<longleftrightarrow> (\<exists>c t1 t2. mongo_Connect api connectionStr s = (Inr c, t1) \<and> Ping api c ctx t1 = (None, t2)))
   \<and> ((\<exists>mc. fst (Connect_bg api connectionStr s) = (Some mc, None))
        \<longleftrightarrow> (\<exists>c t1 t2. mongo_Connect api connectionStr s = (Inr c, t1)
                        \<and> Ping api c (Background api) t1 = (None, t2)))"
proof (intro conjI)
  show "mongo_Connect api connectionStr s = (Inl e, s1)
      \<longrightarrow> Connect api ctx connectionStr s = ((None, Some e), s1)
        \<and> Connect_bg api connectionStr s = ((None, Some e), s1)"
    by (simp add: Connect_def Connect_bg_def)
  show "mongo_Connect api connectionStr s = (Inr cl, s1) \<and> Ping api cl ctx s1 = (Some e, s2)
      \<longrightarrow> Connect api ctx connectionStr s = ((None, Some e), s2)"
    by (simp add: Connect_def)
  show "mongo_Connect api connectionStr s = (Inr cl, s1) \<and> Ping api cl ctx s1 = (None, s2)
      \<longrightarrow> Connect api ctx connectionStr s = ((Some \<lparr>Client = cl\<rparr>, None), s2)"
    by (simp add: Connect_def)
  show "mongo_Connect api connectionStr s = (Inr cl, s1) \<and> Ping api cl (Background api) s1 = (Some e, s2)
      \<longrightarrow> Connect_bg api connectionStr s = ((None, Some e), s2)"
    by (simp add: Connect_bg_def)
  show "mongo_Connect api connectionStr s = (Inr cl, s1) \<and> Ping api cl (Background api) s1 = (None, s2)
      \<longrightarrow> Connect_bg api connectionStr s = ((Some \<lparr>Client = cl\<rparr>, None), s2)"
    by (simp add: Connect_bg_def)
  show "(\<exists>mc. fst (Connect api ctx connectionStr s) = (Some mc, None))
        \<longleftrightarrow> (\<exists>c t1 t2. mongo_Connect api connectionStr s = (Inr c, t1) \<and> Ping api c ctx t1 = (None, t2))"
    by (auto simp: Connect_def split: prod.splits sum.splits option.splits)
  show "(\<exists>mc. fst (Connect_bg api connectionStr s) = (Some mc, None))
        \<longleftrightarrow> (\<exists>c t1 t2. mongo_Connect api connectionStr s = (Inr c, t1)
                        \<and> Ping api c (Background api) t1 = (None, t2))"
    by (auto simp: Connect_bg_def split: prod.splits sum.splits option.splits)
qed

theorem Connect_succeeds_iff_client_and_ping_witness:
  "Connect mem_client () ''localhost:27017'' True = ((None, Some URIError), True)
   \<and> Connect_bg mem_client ''localhost:27017'' True = ((None, Some URIError), True)
   \<and> Connect mem_client () ''mongodb://localhost:27017'' False = ((None, Some ServerSelectionError), False)
   \<and> Connect mem_client () ''mongodb://localhost:27017'' True
        = ((Some \<lparr>Client = ''mongodb://localhost:27017''\<rparr>, None), True)
   \<and> Connect_bg mem_client ''mongodb://localhost:27017'' False = ((None, Some ServerSelectionError), False)
   \<and> Connect_bg mem_client ''mongodb://localhost:27017'' True
        = ((Some \<lparr>Client = ''mongodb://localhost:27017''\<rparr>, None), True)"
proof -
  note all = Connect_succeeds_iff_client_and_ping
  have up: "mongo_Connect mem_client ''mongodb://localhost:27017'' True = (Inr ''mongodb://localhost:27017'', True)
            \<and> Ping mem_client ''mongodb://localhost:27017'' ctx True = (None, True)" for ctx
    by (simp add: mem_client_calls)
  have dn: "mongo_Connect mem_client ''mongodb://localhost:27017'' False = (Inr ''mongodb://localhost:27017'', False)
            \<and> Ping mem_client ''mongodb://localhost:27017'' ctx False = (Some ServerSelectionError, False)" for ctx
    by (simp add: mem_client_calls)
  note c1 = all [THEN conjunct1, THEN mp, OF mem_client_calls(2) [of True], of "()"]
  note c2 = all [THEN conjunct2, THEN conjunct1, THEN mp, OF dn]
  note c3 = all [THEN conjunct2, THEN conjunct2, THEN conjunct1, THEN mp, OF up]
  note c4 = all [THEN conjunct2, THEN conjunct2, THEN conjunct2, THEN conjunct1, THEN mp, OF dn]
  note c5 = all [THEN conjunct2, THEN conjunct2, THEN conjunct2, THEN conjunct2, THEN conjunct1,
                 THEN mp, OF up]
  show ?thesis
    using c1 c2 c3 c4 c5 by simp
qed

section \<open>Update, then find\<close>

lemma find_update_first:
  "find P xs = Some d \<Longrightarrow> P (f d) \<Longrightarrow> find P (update_first P f xs) = Some (f d)"
  by (induction xs) (auto split: if_splits)

lemma find_matches: "find P xs = Some d \<Longrightarrow> P d"
  by (induction xs) (auto split: if_splits)

lemma mem_find_by_id_reads: "find_by_id_reads mem_driver h mem_view"
  by (simp add: find_by_id_reads_def mem_driver_def mem_FindOne_def mem_view_def split: option.splits)

lemma matches_replace_fields:
  assumes "matches (Map.empty(''_id'' \<mapsto> BStr i)) d"
    and "update ''_id'' = None \<or> update ''_id'' = d ''_id''"
  shows "matches (Map.empty(''_id'' \<mapsto> BStr i)) (replace_fields d update)"
  using assms by (auto simp: matches_def replace_fields_def split: option.splits)

lemma mem_set_by_id_replaces: "set_by_id_replaces mem_driver h mem_view update"
proof -
  have "case mem_UpdateOne h ctx (Map.empty(''_id'' \<mapsto> BStr i)) (Map.empty(''$set'' \<mapsto> BM update)) s of
          (Inl err, s1) \<Rightarrow> True
        | (Inr r, s1) \<Rightarrow>
            (case mem_view s i of
               None \<Rightarrow> mem_view s1 i = None
             | Some d \<Rightarrow> mem_view s1 i = Some (replace_fields d update))"
    for ctx :: unit and i s
  proof (cases "find (matches (Map.empty(''_id'' \<mapsto> BStr i))) s")
    case None
    then show ?thesis
      by (simp add: mem_UpdateOne_def mem_view_def)
  next
    case (Some d)
    show ?thesis
    proof (cases "update ''_id'' = None \<or> update ''_id'' = d ''_id''")
      case True
      have m: "matches (Map.empty(''_id'' \<mapsto> BStr i)) (replace_fields d update)"
        using find_matches [OF Some] True by (rule matches_replace_fields)
      have "find (matches (Map.empty(''_id'' \<mapsto> BStr i)))
              (update_first (matches (Map.empty(''_id'' \<mapsto> BStr i))) (\<lambda>d. replace_fields d update) s)
            = Some (replace_fields d update)"
        using find_update_first [OF Some, of "\<lambda>d. replace_fields d update"] m by simp
      then show ?thesis
        using Some True by (simp add: mem_UpdateOne_def mem_view_def)
    next
      case False
      then show ?thesis
        using Some by (auto simp: mem_UpdateOne_def mem_view_def)
    qed
  qed
  then show ?thesis
    by (simp add: set_by_id_replaces_def mem_driver_def)
qed

lemma down_find_by_id_reads: "find_by_id_reads down_driver h docs"
  by (simp add: find_by_id_reads_def down_driver_def)

lemma down_set_by_id_replaces: "set_by_id_replaces down_driver h docs update"
  by (simp add: set_by_id_replaces_def down_driver_def)

lemma FindOneById_reads_stored:
  assumes "find_by_id_reads drv (collection (this w)) docs"
    and "docs (db w) ident = Some d"
  shows "fst (FindOneById drv ctx ident w) =
           (case sr_err (fst (coll_FindOne drv (collection (this w)) ctx
                                (Map.empty(''_id'' \<mapsto> BStr ident)) (db w))) of
              Some err \<Rightarrow> (zero drv, Some err)
            | None \<Rightarrow> (snd (unmarshal drv d (zero drv)), fst (unmarshal drv d (zero drv))))"
proof -
  let ?h = "collection (this w)"
  obtain sr s2 where f: "coll_FindOne drv ?h ctx (Map.empty(''_id'' \<mapsto> BStr ident)) (db w) = (sr, s2)"
    by (cases "coll_FindOne drv ?h ctx (Map.empty(''_id'' \<mapsto> BStr ident)) (db w)")
  have f': "coll_FindOne drv ?h ctx (id_filter ident) (db w) = (sr, s2)"
    using f by (simp add: id_filter_def)
  have "case coll_FindOne drv ?h ctx (Map.empty(''_id'' \<mapsto> BStr ident)) (db w) of
          (sr, s1) \<Rightarrow>
            docs s1 = docs (db w) \<and>
            (case sr_err sr of
               Some err \<Rightarrow> True
             | None \<Rightarrow> docs (db w) ident = Some (sr_rdr sr))"
    using assms(1) unfolding find_by_id_reads_def by (elim allE)
  then have rd: "sr_err sr = None \<Longrightarrow> sr_rdr sr = d"
    using f assms(2) by simp
  show ?thesis
  proof (cases "sr_err sr")
    case None
    then show ?thesis
      unfolding FindOneById_run [OF f'] f using rd by (simp add: sr_Decode_def)
  next
    case (Some e)
    then show ?thesis
      unfolding FindOneById_run [OF f'] f by (simp add: sr_Decode_def)
  qed
qed

text \<open>
  C4. \<^verbatim>\<open>UpdateOneById\<close> makes one call of the driver, \<^verbatim>\<open>UpdateOne\<close> with the filter
  \<^verbatim>\<open>{"_id": id}\<close> and the update document \<^verbatim>\<open>{"$set": update}\<close>, the mapping passed whole under
  the one key \<^verbatim>\<open>$set\<close>. For a driver whose find by \<^verbatim>\<open>_id\<close> and whose \<^verbatim>\<open>$set\<close> mean what the
  contract says, and a document \<open>d\<close> stored under the identifier: a \<^verbatim>\<open>FindOneById\<close> before
  the update returns the driver's error or decodes \<open>d\<close>; after a successful update it
  returns the driver's error or decodes the document that holds, under each key of the
  mapping, the mapping's value and, under every other key, what \<open>d\<close> held.
\<close>

theorem UpdateOneById_then_FindOneById:
  assumes "find_by_id_reads (drv :: ('h, 'c, 'e, 'v, 't, 's) driver) (collection (this w)) docs"
    and "set_by_id_replaces drv (collection (this w)) docs update"
    and "docs (db w) ident = Some d"
    and "UpdateOneById drv ctx ident update w = (None, w1)"
  shows
    "UpdateOneById drv ctx ident update w =
       (case coll_UpdateOne drv (collection (this w)) ctx (Map.empty(''_id'' \<mapsto> BStr ident))
               (Map.empty(''$set'' \<mapsto> BM update)) (db w) of
          (Inl err, s1) \<Rightarrow> (Some err, w\<lparr>db := s1\<rparr>)
        | (Inr r, s1) \<Rightarrow> (None, w\<lparr>db := s1\<rparr>))
     \<and> fst (FindOneById drv ctx' ident w) =
         (case sr_err (fst (coll_FindOne drv (collection (this w)) ctx'
                              (Map.empty(''_id'' \<mapsto> BStr ident)) (db w))) of
            Some err \<Rightarrow> (zero drv, Some err)
          | None \<Rightarrow> (snd (unmarshal drv d (zero drv)), fst (unmarshal drv d (zero drv))))
     \<and> fst (FindOneById drv ctx' ident w1) =
         (case sr_err (fst (coll_FindOne drv (collection (this w)) ctx'
                              (Map.empty(''_id'' \<mapsto> BStr ident)) (db w1))) of
            Some err \<Rightarrow> (zero drv, Some err)
          | None \<Rightarrow>
              (snd (unmarshal drv (\<lambda>k. case update k of Some v \<Rightarrow> Some v | None \<Rightarrow> d k) (zero drv)),
               fst (unmarshal drv (\<lambda>k. case update k of Some v \<Rightarrow> Some v | None \<Rightarrow> d k) (zero drv))))"
proof (intro conjI)
  let ?h = "collection (this w)"
  let ?F = "Map.empty(''_id'' \<mapsto> BStr ident) :: 'v bsonM"
  let ?U = "Map.empty(''$set'' \<mapsto> BM update)"
  show call: "UpdateOneById drv ctx ident update w =
       (case coll_UpdateOne drv ?h ctx ?F ?U (db w) of
          (Inl err, s1) \<Rightarrow> (Some err, w\<lparr>db := s1\<rparr>)
        | (Inr r, s1) \<Rightarrow> (None, w\<lparr>db := s1\<rparr>))"
    by (simp add: UpdateOneById_def id_filter_def set_document_def Let_def
        split: prod.splits sum.splits)
  obtain r s1 where upd: "coll_UpdateOne drv ?h ctx ?F ?U (db w) = (Inr r, s1)"
    and w1: "w1 = w\<lparr>db := s1\<rparr>"
    using assms(4) unfolding call by (auto split: prod.splits sum.splits)
  have "case coll_UpdateOne drv ?h ctx ?F ?U (db w) of
          (Inl err, s1) \<Rightarrow> True
        | (Inr r, s1) \<Rightarrow>
            (case docs (db w) ident of
               None \<Rightarrow> docs s1 ident = None
             | Some d \<Rightarrow> docs s1 ident = Some (replace_fields d update))"
    using assms(2) unfolding set_by_id_replaces_def by (elim allE)
  then have stored1: "docs (db w1) ident = Some (\<lambda>k. case update k of Some v \<Rightarrow> Some v | None \<Rightarrow> d k)"
    using upd assms(3) by (simp add: w1 replace_fields_def)
  have contract1: "find_by_id_reads drv (collection (this w1)) docs"
    using assms(1) by (simp add: w1)
  show "fst (FindOneById drv ctx' ident w) =
         (case sr_err (fst (coll_FindOne drv ?h ctx' ?F (db w))) of
            Some err \<Rightarrow> (zero drv, Some err)
          | None \<Rightarrow> (snd (unmarshal drv d (zero drv)), fst (unmarshal drv d (zero drv))))"
    using assms(1,3) by (rule FindOneById_reads_stored)
  show "fst (FindOneById drv ctx' ident w1) =
         (case sr_err (fst (coll_FindOne drv ?h ctx' ?F (db w1))) of
            Some err \<Rightarrow> (zero drv, Some err)
          | None \<Rightarrow>
              (snd (unmarshal drv (\<lambda>k. case update k of Some v \<Rightarrow> Some v | None \<Rightarrow> d k) (zero drv)),
               fst (unmarshal drv (\<lambda>k. case update k of Some v \<Rightarrow> Some v | None \<Rightarrow> d k) (zero drv))))"
    using FindOneById_reads_stored [OF contract1 stored1, of ctx'] by (simp add: w1)
qed


theorem UpdateOneById_then_FindOneById_witness:
  "UpdateOneById mem_driver () ''u1'' (Map.empty(''age'' \<mapsto> BAny 31)) (mem_world [john, ann])
     = (None, mem_world [john, replace_fields ann (Map.empty(''age'' \<mapsto> BAny 31))])
   \<and> fst (FindOneById mem_driver () ''u1'' (mem_world [john, ann]))
     = (\<lparr>ID = ''u1'', Name = ''Ann'', Age = 30\<rparr>, None)
   \<and> fst (FindOneById mem_driver () ''u1''
             (mem_world [john, replace_fields ann (Map.empty(''age'' \<mapsto> BAny 31))]))
     = (\<lparr>ID = ''u1'', Name = ''Ann'', Age = 31\<rparr>, None)"
proof -
  let ?u = "Map.empty(''age'' \<mapsto> BAny (31 :: int))"
  let ?F = "Map.empty(''_id'' \<mapsto> BStr ''u1'') :: int bsonM"
  have stored: "mem_view (db (mem_world [john, ann])) ''u1'' = Some ann"
    by (simp add: mem_view_def mem_world_def matches_def john_def ann_def)
  have upd: "UpdateOneById mem_driver () ''u1'' ?u (mem_world [john, ann])
            = (None, mem_world [john, replace_fields ann ?u])"
    by (simp add: UpdateOneById_def mem_driver_def mem_UpdateOne_def set_document_def
        matches_def id_filter_def mem_world_def john_def ann_def)
  have f0: "sr_err (fst (coll_FindOne mem_driver (collection (this (mem_world [john, ann]))) ()
                            ?F (db (mem_world [john, ann])))) = None"
    by (simp add: mem_driver_def mem_FindOne_def matches_def mem_world_def john_def ann_def)
  have f1: "sr_err (fst (coll_FindOne mem_driver (collection (this (mem_world [john, ann]))) ()
                            ?F (db (mem_world [john, replace_fields ann ?u])))) = None"
    by (simp add: mem_driver_def mem_FindOne_def matches_def mem_world_def replace_fields_def
        john_def ann_def)
  have d0: "unmarshal mem_driver ann (zero mem_driver)
            = (None, \<lparr>ID = ''u1'', Name = ''Ann'', Age = 30\<rparr>)"
    by (simp add: mem_driver_def unmarshal_TestEntity_def ann_def)
  have d1: "unmarshal mem_driver (\<lambda>k. case ?u k of Some v \<Rightarrow> Some v | None \<Rightarrow> ann k) (zero mem_driver)
            = (None, \<lparr>ID = ''u1'', Name = ''Ann'', Age = 31\<rparr>)"
    by (simp add: mem_driver_def unmarshal_TestEntity_def ann_def)
  note t = UpdateOneById_then_FindOneById
    [OF mem_find_by_id_reads mem_set_by_id_replaces stored upd, of "()", unfolded f0 f1 d0 d1]
  show ?thesis
    using t upd by simp
qed

end
